theory Spec2Isabelle
  imports Complex_Main
begin

section \<open>Property signatures of crossbeam: the data model\<close>

text \<open>
  A shallow embedding of \<^verbatim>\<open>crossbeam/property_signatures/property_signatures.py\<close>.
  Python functions keep their names, without the leading underscore. A function that can
  raise returns \<open>error + 'a\<close>, with \<open>Inl\<close> the exception.

  A runtime object is a bool, an int, a list of ints (the lists of the DeepCoder domain and
  of \<^verbatim>\<open>VALUES_TO_TRY\<close>), \<^verbatim>\<open>None\<close>, or an object of any other runtime type. The latter
  carries the name of its type and its \<^verbatim>\<open>num_free_variables\<close> attribute when it has one;
  builtin bools, ints and lists have no such attribute.
\<close>

datatype obj =
    PyBool bool
  | PyInt int
  | PyList "int list"
  | PyNone
  | PyOther string "nat option"

datatype pytype = TBool | TInt | TList | TNone | TOther string

text \<open>\<^verbatim>\<open>type(x)\<close>.\<close>

fun pytype_of :: "obj \<Rightarrow> pytype" where
  "pytype_of (PyBool _) = TBool"
| "pytype_of (PyInt _) = TInt"
| "pytype_of (PyList _) = TList"
| "pytype_of PyNone = TNone"
| "pytype_of (PyOther name _) = TOther name"

text \<open>\<^verbatim>\<open>getattr(x, 'num_free_variables', 0)\<close>.\<close>

fun getattr_num_free_variables :: "obj \<Rightarrow> nat" where
  "getattr_num_free_variables (PyOther _ (Some n)) = n"
| "getattr_num_free_variables _ = 0"

datatype error =
    NotImplementedError
  | AssertionError
  | ZeroDivisionError
  | IndexError
  | NameError

type_synonym 'a result = "error + 'a"

text \<open>Sequencing of calls that may raise: the first exception propagates.\<close>

definition ebind :: "'a result \<Rightarrow> ('a \<Rightarrow> 'b result) \<Rightarrow> 'b result" where
  "ebind m f = (case m of Inl e \<Rightarrow> Inl e | Inr v \<Rightarrow> f v)"

text \<open>A comprehension or generator whose body may raise, evaluated left to right.\<close>

fun emap :: "('a \<Rightarrow> 'b result) \<Rightarrow> 'a list \<Rightarrow> 'b list result" where
  "emap f [] = Inr []"
| "emap f (x # xs) = ebind (f x) (\<lambda>y. ebind (emap f xs) (\<lambda>ys. Inr (y # ys)))"

text \<open>\<^verbatim>\<open>len(...)\<close> of a call made while the module is loaded.\<close>

definition result_len :: "'a list result \<Rightarrow> nat" where
  "result_len r = (case r of Inl _ \<Rightarrow> 0 | Inr xs \<Rightarrow> length xs)"

definition supported :: "obj \<Rightarrow> bool" where
  "supported x = (pytype_of x = TBool \<or> pytype_of x = TInt \<or> pytype_of x = TList)"

definition DEFAULT_VALUES :: "(pytype \<times> obj) list" where
  "DEFAULT_VALUES = [(TBool, PyBool False), (TInt, PyInt 0), (TList, PyList [])]"

definition VALUES_TO_TRY :: "(pytype \<times> obj list) list" where
  "VALUES_TO_TRY =
    [(TBool, [PyBool False, PyBool True]),
     (TInt, map PyInt ([-100, -50, -20, -10, -7] @ [-5 .. 5] @ [7, 10, 20, 50, 100])),
     (TList, map PyList
       [[],
        [0], [-1], [1], [6],
        [0, 1], [2, 2], [-2, -4], [5, -3], [-8, 1],
        [1, 2, 3], [6, 2, 5], [-5, 2, -19],
        [-32, 51, -45, 23],
        [0, 0, 0, 0, 0],
        [2, 2, 1, 3, 3, 0],
        [5, -6, 9, -19, 43, 22, -1],
        [6, 21, 23, 45, 55, 67, 72, 75],
        [24, -22, 0, 1, 6, -59, 35, 1, -2],
        [0, 0, 0, 1, 1, 1, 1, 2, 3, 3]])]"

definition FIXED_NUM_INPUTS :: nat where
  "FIXED_NUM_INPUTS = 3"

section \<open>Classification, basic properties and relevant objects\<close>

definition type_property :: "obj \<Rightarrow> bool list result" where
  "type_property x =
    (let type_x = pytype_of x;
         is_lambda = (getattr_num_free_variables x > 0)
     in Inr [is_lambda, type_x = TBool, type_x = TInt, type_x = TList])"

fun basic_properties :: "obj \<Rightarrow> bool list result" where
  "basic_properties (PyBool x) = Inr [x, \<not> x]"
| "basic_properties (PyInt x) =
    (let abs_x = \<bar>x\<bar>
     in Inr [x = -1, x = 0, x = 1, x = 2, x > 0, x < 0,
             abs_x < 5, abs_x < 10, abs_x < 30, abs_x < 100, abs_x < 300, abs_x \<ge> 300])"
| "basic_properties (PyList x) =
    (let sorted_x = sort x;
         reverse_sorted_x = rev sorted_x;
         num_unique = length (remdups x)
     in Inr [x = sorted_x,
             x = reverse_sorted_x,
             num_unique = 1,
             num_unique \<le> length x div 2,
             num_unique = length x])"
| "basic_properties _ = Inl NotImplementedError"

text \<open>\<^verbatim>\<open>max\<close>, \<^verbatim>\<open>min\<close> and \<^verbatim>\<open>sum\<close> of a list that is not empty, scanning it from the left.\<close>

definition py_max :: "int list \<Rightarrow> int" where
  "py_max x = fold max (tl x) (hd x)"

definition py_min :: "int list \<Rightarrow> int" where
  "py_min x = fold min (tl x) (hd x)"

definition py_sum :: "int list \<Rightarrow> int" where
  "py_sum x = fold (\<lambda>v acc. acc + v) x 0"

fun relevant :: "obj \<Rightarrow> obj list result" where
  "relevant (PyBool x) = Inr [PyBool x]"
| "relevant (PyInt x) = Inr [PyInt x]"
| "relevant (PyList orig_x) =
    (let len_x = length orig_x;
         x = (if orig_x = [] then [0] else orig_x)
     in Inr [PyList orig_x, PyInt (int len_x), PyInt (py_max x), PyInt (py_min x),
             PyInt (py_sum x), PyInt (hd x), PyInt (last x)])"
| "relevant _ = Inl NotImplementedError"

section \<open>Basic signatures\<close>

text \<open>The branch \<^verbatim>\<open>not fixed_length\<close> of \<^verbatim>\<open>_basic_signature\<close>.\<close>

definition basic_signature_variable :: "obj \<Rightarrow> bool option list result" where
  "basic_signature_variable x =
    ebind (type_property x) (\<lambda>tp.
    ebind (relevant x) (\<lambda>rs.
    ebind (emap basic_properties rs) (\<lambda>ps.
    Inr (map Some (tp @ concat ps)))))"

definition BASIC_SIGNATURE_LENGTH_BY_TYPE :: "(pytype \<times> nat) list" where
  "BASIC_SIGNATURE_LENGTH_BY_TYPE =
    map (\<lambda>(t, d). (t, result_len (basic_signature_variable d))) DEFAULT_VALUES"

definition basic_signature :: "obj \<Rightarrow> bool \<Rightarrow> bool option list result" where
  "basic_signature x fixed_length =
    (if \<not> fixed_length then basic_signature_variable x
     else
       let type_x = pytype_of x in
       ebind (basic_signature_variable x) (\<lambda>basic_signature.
       Inr (concat (map (\<lambda>t. if type_x = t then basic_signature
                              else replicate (the (map_of BASIC_SIGNATURE_LENGTH_BY_TYPE t)) None)
                        (map fst DEFAULT_VALUES)))))"

section \<open>Comparisons\<close>

fun compare_same_type :: "obj \<Rightarrow> obj \<Rightarrow> bool list result" where
  "compare_same_type x y =
    (if pytype_of x \<noteq> pytype_of y then Inl AssertionError
     else case (x, y) of
       (PyBool a, PyBool b) \<Rightarrow> Inr [a = b, a \<noteq> b, a \<and> b, a \<or> b]
     | (PyInt a, PyInt b) \<Rightarrow>
         (let abs_diff = \<bar>a - b\<bar>
          in Inr [a = b, a < b, a > b,
                  abs_diff < 2, abs_diff < 5, abs_diff < 10, abs_diff < 100,
                  (a \<ge> 0) = (b \<ge> 0)])
     | (PyList a, PyList b) \<Rightarrow>
         (let unique_x = set a;
              unique_y = set b;
              len_x = int (length a);
              len_y = int (length b)
          in Inr [a = b,
                  len_x = len_y,
                  len_x > len_y,
                  len_x < len_y,
                  \<bar>len_x - len_y\<bar> < 2,
                  list_all (\<lambda>(xi, yi). xi \<le> yi) (zip a b),
                  list_all (\<lambda>(xi, yi). xi \<ge> yi) (zip a b),
                  list_all (\<lambda>(xi, yi). xi = yi) (zip a b),
                  unique_x = unique_y,
                  unique_x \<subseteq> unique_y,
                  unique_y \<subseteq> unique_x])
     | _ \<Rightarrow> Inl NotImplementedError)"

text \<open>The branch \<^verbatim>\<open>not fixed_length\<close> of \<^verbatim>\<open>_compare\<close>.\<close>

definition compare_variable :: "obj \<Rightarrow> obj \<Rightarrow> bool option list result" where
  "compare_variable x y =
    (let type_x = pytype_of x;
         type_y = pytype_of y
     in if type_x = type_y then ebind (compare_same_type x y) (\<lambda>c. Inr (map Some c))
        else
          ebind (relevant x) (\<lambda>rx.
          ebind (emap (\<lambda>r. compare_same_type r y) (filter (\<lambda>r. pytype_of r = type_y) rx)) (\<lambda>cx.
          ebind (relevant y) (\<lambda>ry.
          ebind (emap (\<lambda>r. compare_same_type x r) (filter (\<lambda>r. type_x = pytype_of r) ry)) (\<lambda>cy.
          Inr (map Some (concat cx @ concat cy)))))))"

definition COMPARE_LENGTH_BY_TYPES :: "((pytype \<times> pytype) \<times> nat) list" where
  "COMPARE_LENGTH_BY_TYPES =
    map (\<lambda>((type_1, d1), (type_2, d2)). ((type_1, type_2), result_len (compare_variable d1 d2)))
        (List.product DEFAULT_VALUES DEFAULT_VALUES)"

definition compare :: "obj \<Rightarrow> obj \<Rightarrow> bool \<Rightarrow> bool option list result" where
  "compare x y fixed_length =
    (let type_x = pytype_of x;
         type_y = pytype_of y
     in if \<not> fixed_length then compare_variable x y
        else
          ebind (emap (\<lambda>(type_1, type_2).
                   if (type_x, type_y) = (type_1, type_2) then compare_variable x y
                   else Inr (replicate (the (map_of COMPARE_LENGTH_BY_TYPES (type_1, type_2))) None))
                 (List.product (map fst DEFAULT_VALUES) (map fst DEFAULT_VALUES)))
            (\<lambda>parts. Inr (concat parts)))"

section \<open>Signatures of one example\<close>

definition property_signature_single_example ::
  "obj list \<Rightarrow> obj \<Rightarrow> bool \<Rightarrow> bool option list result" where
  "property_signature_single_example inputs0 output fixed_length =
    (if \<not> fixed_length then
       ebind (basic_signature output fixed_length) (\<lambda>b.
       ebind (emap (\<lambda>i. ebind (basic_signature i fixed_length) (\<lambda>bi.
                          ebind (compare i output fixed_length) (\<lambda>ci. Inr (bi @ ci))))
                   inputs0) (\<lambda>rest.
       Inr (b @ concat rest)))
     else
       let inputs = (if length inputs0 > FIXED_NUM_INPUTS then take FIXED_NUM_INPUTS inputs0
                     else inputs0) in
       ebind (basic_signature output fixed_length) (\<lambda>result0.
       let basic_sig_length = length result0 in
       ebind (emap (\<lambda>i. ebind (basic_signature i fixed_length) (\<lambda>bi.
                          ebind (compare i output fixed_length) (\<lambda>ci. Inr (bi @ ci))))
                   inputs) (\<lambda>rest.
       let result = result0 @ concat rest in
       if length inputs < FIXED_NUM_INPUTS then
         if length inputs = 0 then Inl ZeroDivisionError
         else if (length result - basic_sig_length) mod length inputs \<noteq> 0 then Inl AssertionError
         else Inr (result @ replicate
                     ((length result - basic_sig_length) div length inputs *
                      (FIXED_NUM_INPUTS - length inputs)) None)
       else Inr result)))"

definition property_signature_single_object ::
  "obj \<Rightarrow> obj \<Rightarrow> bool \<Rightarrow> bool option list result" where
  "property_signature_single_object x output fixed_length =
    ebind (basic_signature x fixed_length) (\<lambda>b.
    ebind (compare x output fixed_length) (\<lambda>c.
    Inr (b @ c)))"

section \<open>Reduction across examples\<close>

text \<open>
  A Python float is modelled by a rational number: the quotients of two counts that the
  reduction computes, and the tests \<^verbatim>\<open>frac_true == 1\<close> and \<^verbatim>\<open>frac_true == 0\<close> on them.
\<close>

type_synonym reduced = "rat \<times> bool \<times> bool \<times> rat"

text \<open>\<^verbatim>\<open>zip(*signatures)\<close>: the columns, as many as the shortest signature has entries.\<close>

definition zip_star :: "'a list list \<Rightarrow> 'a list list" where
  "zip_star xss =
    (if xss = [] then []
     else map (\<lambda>i. map (\<lambda>xs. xs ! i) xss) [0 ..< fold min (map length (tl xss)) (length (hd xss))])"

text \<open>The body of the loop of \<^verbatim>\<open>_reduce_across_examples\<close>, on one column.\<close>

definition reduce_column :: "nat \<Rightarrow> bool option list \<Rightarrow> reduced" where
  "reduce_column num_examples bools =
    (let bools_not_none = map the (filter (\<lambda>x. x \<noteq> None) bools);
         num_not_none = length bools_not_none;
         frac_true = (if num_not_none \<noteq> 0
                      then of_nat (sum_list (map (\<lambda>b. if b then 1 else 0) bools_not_none))
                           / of_nat num_not_none
                      else 1 / 2)
     in (of_nat (length bools_not_none) / of_nat num_examples,
         frac_true = 1,
         frac_true = 0,
         frac_true))"

definition reduce_across_examples :: "bool option list list \<Rightarrow> reduced list result" where
  "reduce_across_examples signatures =
    (let num_examples = length signatures in
     if num_examples = 0 then Inl AssertionError
     else
       let signature_len = length (hd signatures) in
       if \<not> list_all (\<lambda>sig. length sig = signature_len) signatures then Inl AssertionError
       else Inr (map (reduce_column num_examples) (zip_star signatures)))"

section \<open>Values\<close>

text \<open>
  Modelled from the spec: the class \<^verbatim>\<open>Value\<close> of \<^verbatim>\<open>crossbeam/dsl/value.py\<close>, which is not
  among the sources. A value is a column of per-example entries, concrete objects or
  callables of a shared arity \<^verbatim>\<open>num_free_variables\<close>; \<^verbatim>\<open>num_examples\<close> is the number of
  entries and indexing returns the entry of an example. A call of a callable either raises
  or returns an object (possibly \<^verbatim>\<open>None\<close>).
\<close>

datatype outcome = Raises | Returns obj

datatype entry = Obj obj | Fn "obj list \<Rightarrow> outcome"

record "value" =
  values_of :: "entry list"
  num_free_variables :: nat

text \<open>Modelled from the spec: \<^verbatim>\<open>num_examples\<close>, the number of parallel examples of a value.\<close>

definition num_examples :: "value \<Rightarrow> nat" where
  "num_examples v = length (values_of v)"

text \<open>An entry as a runtime object: a callable is an object of type \<^verbatim>\<open>function\<close>.\<close>

fun entry_obj :: "entry \<Rightarrow> obj" where
  "entry_obj (Obj x) = x"
| "entry_obj (Fn _) = PyOther ''function'' None"

text \<open>Modelled from the spec: \<^verbatim>\<open>value[index]\<close>, the entry of the example \<open>index\<close>; an index
  out of range raises.\<close>

definition getitem :: "value \<Rightarrow> nat \<Rightarrow> obj result" where
  "getitem v index =
    (if index < length (values_of v) then Inr (entry_obj (values_of v ! index))
     else Inl IndexError)"

text \<open>\<^verbatim>\<open>lambda_fn(*inputs_list)\<close>: calling an entry that is not a callable raises.\<close>

fun call :: "entry \<Rightarrow> obj list \<Rightarrow> outcome" where
  "call (Fn f) args = f args"
| "call (Obj _) args = Raises"

text \<open>The value itself as the runtime object that \<^verbatim>\<open>_type_property\<close> inspects.\<close>

definition value_obj :: "value \<Rightarrow> obj" where
  "value_obj v = PyOther ''Value'' (Some (num_free_variables v))"

text \<open>
  Modelled from the spec: the constructors \<^verbatim>\<open>ConstantValue\<close>, \<^verbatim>\<open>OutputValue\<close> and
  \<^verbatim>\<open>InputVariable\<close> of the same module, which build concrete values.
\<close>

definition ConstantValue :: "obj \<Rightarrow> value" where
  "ConstantValue c = \<lparr>values_of = [Obj c], num_free_variables = 0\<rparr>"

definition OutputValue :: "obj list \<Rightarrow> value" where
  "OutputValue xs = \<lparr>values_of = map Obj xs, num_free_variables = 0\<rparr>"

definition InputVariable :: "obj list \<Rightarrow> value" where
  "InputVariable xs = \<lparr>values_of = map Obj xs, num_free_variables = 0\<rparr>"

section \<open>Signatures of values\<close>

definition property_signature_io_examples ::
  "value list \<Rightarrow> value \<Rightarrow> bool \<Rightarrow> reduced list result" where
  "property_signature_io_examples input_values output_value fixed_length =
    (if \<not> list_all (\<lambda>i_value. num_examples i_value = num_examples output_value) input_values
     then Inl AssertionError
     else
       ebind (emap (\<lambda>example_index.
                ebind (emap (\<lambda>i_value. getitem i_value example_index) input_values) (\<lambda>inputs.
                ebind (getitem output_value example_index) (\<lambda>output.
                property_signature_single_example inputs output fixed_length)))
              [0 ..< num_examples output_value])
         reduce_across_examples)"

definition property_signature_concrete_value ::
  "value \<Rightarrow> value \<Rightarrow> bool \<Rightarrow> reduced list result" where
  "property_signature_concrete_value v output_value fixed_length =
    (if num_free_variables v \<noteq> 0 then Inl AssertionError
     else
       ebind (emap (\<lambda>i.
                ebind (getitem v i) (\<lambda>x.
                ebind (getitem output_value i) (\<lambda>output.
                property_signature_single_object x output fixed_length)))
              [0 ..< num_examples output_value])
         reduce_across_examples)"

text \<open>\<^verbatim>\<open>itertools.product(xs, repeat=k)\<close>: the last position varies fastest.\<close>

fun product_repeat :: "'a list \<Rightarrow> nat \<Rightarrow> 'a list list" where
  "product_repeat xs 0 = [[]]"
| "product_repeat xs (Suc k) = concat (map (\<lambda>x. map ((#) x) (product_repeat xs k)) xs)"

definition inputs_to_try :: "obj list" where
  "inputs_to_try = concat (map snd VALUES_TO_TRY)"

text \<open>The \<^verbatim>\<open>try\<close> block of \<^verbatim>\<open>_run_lambda\<close>: one call, whose result is appended when it is
  not \<^verbatim>\<open>None\<close>, and whose exception is swallowed.\<close>

definition try_call ::
  "obj list \<Rightarrow> entry \<times> (obj list \<times> obj) list \<Rightarrow> (obj list \<times> obj) list" where
  "try_call inputs_list p =
    (case p of (lambda_fn, io_pairs) \<Rightarrow>
      (case call lambda_fn inputs_list of
         Returns result \<Rightarrow>
           if result \<noteq> PyNone then io_pairs @ [(inputs_list, result)] else io_pairs
       | Raises \<Rightarrow> io_pairs))"

definition run_lambda :: "value \<Rightarrow> (obj list \<times> obj) list list result" where
  "run_lambda v =
    (let arity = num_free_variables v in
     if \<not> arity > 0 then Inl AssertionError
     else
       Inr (fold (\<lambda>inputs_list io_pairs_per_example.
                    map (try_call inputs_list) (zip (values_of v) io_pairs_per_example))
                 (product_repeat inputs_to_try arity)
                 (replicate (num_examples v) [])))"

definition REDUCED_PADDING :: reduced where
  "REDUCED_PADDING = (0, False, False, 1 / 2)"

text \<open>
  \<^verbatim>\<open>_property_signature_lambda\<close> reads the module's global
  \<^verbatim>\<open>_SIGNATURE_LENGTH_LAMBDA_VALUE\<close>, which is itself computed by a call of this function
  while the module is loaded. The global is a parameter here: \<open>None\<close> while it is not
  yet bound, when reading it raises.
\<close>

definition property_signature_lambda_global ::
  "nat option \<Rightarrow> value \<Rightarrow> value \<Rightarrow> bool \<Rightarrow> reduced list result" where
  "property_signature_lambda_global global_length v output_value fixed_length =
    ebind (run_lambda v) (\<lambda>io_pairs_per_example.
    if list_all (\<lambda>pairs_for_example. pairs_for_example = []) io_pairs_per_example then
      (case global_length of
         None \<Rightarrow> Inl NameError
       | Some n \<Rightarrow> Inr (replicate n REDUCED_PADDING))
    else
      ebind (emap (\<lambda>(example_index, pairs).
               emap (\<lambda>(inputs, output).
                 ebind (type_property (value_obj v)) (\<lambda>tp.
                 ebind (getitem output_value example_index) (\<lambda>out.
                 ebind (compare output out fixed_length) (\<lambda>c.
                 ebind (property_signature_single_example inputs output fixed_length) (\<lambda>s.
                 Inr (map Some tp @ c @ s))))))
                 pairs)
             (enumerate 0 io_pairs_per_example)) (\<lambda>signatures_to_reduce.
      reduce_across_examples (concat signatures_to_reduce)))"

definition SIGNATURE_LENGTH_CONCRETE_VALUE :: nat where
  "SIGNATURE_LENGTH_CONCRETE_VALUE =
    result_len (property_signature_concrete_value
                  (ConstantValue (PyInt 0)) (OutputValue [PyInt 1]) True)"

text \<open>
  Modelled from the spec: the fixture \<^verbatim>\<open>_LAMBDA_VALUE\<close>, built by
  \<^verbatim>\<open>deepcoder_operations.Add().apply\<close>, which is not among the sources: a canonical
  functional value of arity 1 wrapping a known arithmetic operation, here adding 10 to an
  integer argument, over one example.
\<close>

definition LAMBDA_VALUE :: "value" where
  "LAMBDA_VALUE =
    \<lparr>values_of = [Fn (\<lambda>args. case args of [PyInt x] \<Rightarrow> Returns (PyInt (10 + x)) | _ \<Rightarrow> Raises)],
     num_free_variables = 1\<rparr>"

definition SIGNATURE_LENGTH_LAMBDA_VALUE :: nat where
  "SIGNATURE_LENGTH_LAMBDA_VALUE =
    result_len (property_signature_lambda_global None
                  LAMBDA_VALUE (OutputValue [PyInt 1]) True)"

definition property_signature_lambda :: "value \<Rightarrow> value \<Rightarrow> bool \<Rightarrow> reduced list result" where
  "property_signature_lambda =
    property_signature_lambda_global (Some SIGNATURE_LENGTH_LAMBDA_VALUE)"

definition property_signature_value :: "value \<Rightarrow> value \<Rightarrow> bool \<Rightarrow> reduced list result" where
  "property_signature_value v output_value fixed_length =
    (if \<not> fixed_length then
       if num_free_variables v \<noteq> 0 then property_signature_lambda v output_value fixed_length
       else property_signature_concrete_value v output_value fixed_length
     else
       if num_free_variables v \<noteq> 0 then
         ebind (property_signature_lambda v output_value fixed_length) (\<lambda>l.
         Inr (replicate SIGNATURE_LENGTH_CONCRETE_VALUE REDUCED_PADDING @ l))
       else
         ebind (property_signature_concrete_value v output_value fixed_length) (\<lambda>c.
         Inr (c @ replicate SIGNATURE_LENGTH_LAMBDA_VALUE REDUCED_PADDING)))"

definition VALUE_SIGNATURE_LENGTH :: nat where
  "VALUE_SIGNATURE_LENGTH =
    result_len (property_signature_value
                  (InputVariable [PyInt 1, PyInt 2]) (OutputValue [PyInt (-1), PyInt (-2)]) True)"

section \<open>The specification's wording, for comparison with the code\<close>

text \<open>
  The cross-type comparison in the order of the specification: the same-type comparisons
  of \<open>x\<close> with the relevant objects of \<open>y\<close> that have the type of \<open>x\<close>, followed by those
  of the relevant objects of \<open>x\<close> that have the type of \<open>y\<close> with \<open>y\<close>.
\<close>

definition spec_cross_compare :: "obj \<Rightarrow> obj \<Rightarrow> bool option list result" where
  "spec_cross_compare x y =
    ebind (relevant y) (\<lambda>ry.
    ebind (emap (\<lambda>r. compare_same_type x r) (filter (\<lambda>r. pytype_of r = pytype_of x) ry)) (\<lambda>cy.
    ebind (relevant x) (\<lambda>rx.
    ebind (emap (\<lambda>r. compare_same_type r y) (filter (\<lambda>r. pytype_of r = pytype_of y) rx)) (\<lambda>cx.
    Inr (map Some (concat cy @ concat cx))))))"

text \<open>
  The reduced feature of one position in the words of the specification: the coverage is
  the number of applicable entries over the number of samples, the fraction is the mean of
  the applicable booleans, or one half when none is applicable, and the two flags say
  whether the fraction is exactly 1 or exactly 0.
\<close>

definition spec_reduced :: "bool option list \<Rightarrow> reduced" where
  "spec_reduced column =
    (let applicable = filter (\<lambda>v. v \<noteq> None) column;
         coverage = of_nat (length applicable) / of_nat (length column);
         frac_true = (if applicable = [] then 1 / 2
                      else of_nat (length (filter (\<lambda>v. v = Some True) applicable))
                           / of_nat (length applicable))
     in (coverage, frac_true = 1, frac_true = 0, frac_true))"

section \<open>Sequencing lemmas\<close>

lemma ebind_Inr [simp]: "ebind (Inr v) f = f v"
  by (simp add: ebind_def)

lemma ebind_Inl [simp]: "ebind (Inl e) f = Inl e"
  by (simp add: ebind_def)

section \<open>The relevant objects of a list\<close>

lemma py_max_Max: "x \<noteq> [] \<Longrightarrow> py_max x = Max (set x)"
  unfolding py_max_def by (cases x) (simp_all add: Max.set_eq_fold [symmetric])

lemma py_min_Min: "x \<noteq> [] \<Longrightarrow> py_min x = Min (set x)"
  unfolding py_min_def by (cases x) (simp_all add: Min.set_eq_fold [symmetric])

lemma fold_add_acc: "fold (\<lambda>v acc. acc + v) x (a::int) = a + sum_list x"
  by (induction x arbitrary: a) simp_all

lemma py_sum_sum_list: "py_sum x = sum_list x"
  by (simp add: py_sum_def fold_add_acc)

text \<open>
  Claim C7. For every list \<open>x\<close>, \<^verbatim>\<open>_relevant(x)\<close> returns exactly seven objects: \<open>x\<close>
  itself, its length, and the maximum, minimum, sum, first and last element of \<open>x\<close>, or of
  the placeholder \<open>[0]\<close> when \<open>x\<close> is empty. For the empty list the first component is the
  empty list, the length is 0 and the other five components are 0; nothing raises.
\<close>

theorem relevant_list:
  "relevant (PyList x) =
     (let x' = (if x = [] then [0] else x)
      in Inr [PyList x, PyInt (int (length x)), PyInt (Max (set x')), PyInt (Min (set x')),
              PyInt (sum_list x'), PyInt (hd x'), PyInt (last x')])
   \<and> relevant (PyList []) =
       Inr [PyList [], PyInt 0, PyInt 0, PyInt 0, PyInt 0, PyInt 0, PyInt 0]"
  by (simp add: Let_def py_max_Max py_min_Min py_sum_sum_list)

theorem relevant_list_witness:
  "relevant (PyList [3, 1, 2]) =
     Inr [PyList [3, 1, 2], PyInt 3, PyInt 3, PyInt 1, PyInt 6, PyInt 3, PyInt 2]"
  using relevant_list [of "[3, 1, 2]"] by (simp add: Let_def)

section \<open>Comparing two lists\<close>

text \<open>
  Claim C8. \<^verbatim>\<open>_compare_same_type\<close> on \<open>x = [1, 2, 3]\<close> and \<open>y = [1, 2, 3, 4]\<close> returns the
  eleven booleans: not equal, not of the same length, not longer, shorter, lengths differing
  by less than 2, elementwise \<open>\<le>\<close>, \<open>\<ge>\<close> and \<open>=\<close> over the shared prefix, not equal as
  sets, a subset, not a superset.
\<close>

theorem compare_same_type_prefix_example:
  "compare_same_type (PyList [1, 2, 3]) (PyList [1, 2, 3, 4]) =
     Inr [False, False, False, True, True, True, True, True, False, True, False]"
proof -
  have "(4::int) \<notin> {1, 2, 3}" by simp
  then have "{1, 2, 3} \<noteq> {1, 2, 3, 4::int}" by blast
  then show ?thesis by (simp add: Let_def)
qed

section \<open>The type classifier\<close>

text \<open>
  Claim C10. On a concrete bool, int or list, and on a functional value (an object with
  positive \<^verbatim>\<open>num_free_variables\<close>) whose runtime type is none of bool, int, list,
  \<^verbatim>\<open>_type_property\<close> returns four bits of which exactly one is true.
\<close>

theorem type_property_one_hot:
  assumes "supported x \<or> (\<not> supported x \<and> getattr_num_free_variables x > 0)"
  shows "\<exists>bs. type_property x = Inr bs \<and> length bs = 4 \<and> count_list bs True = 1"
  using assms by (cases x) (auto simp: type_property_def supported_def Let_def)

theorem type_property_one_hot_witness:
  "(\<exists>bs. type_property (value_obj LAMBDA_VALUE) = Inr bs \<and> length bs = 4 \<and> count_list bs True = 1)
   \<and> (\<exists>bs. type_property (PyList [1, 2]) = Inr bs \<and> length bs = 4 \<and> count_list bs True = 1)"
  using type_property_one_hot [of "value_obj LAMBDA_VALUE"] type_property_one_hot [of "PyList [1, 2]"]
  by (simp add: supported_def value_obj_def LAMBDA_VALUE_def)

section \<open>Comparison of objects of different types\<close>

lemma relevant_types:
  "relevant y = Inr ry \<Longrightarrow> r \<in> set ry \<Longrightarrow> supported r"
  by (cases y) (auto simp: supported_def Let_def)

text \<open>
  Claim C4. For supported objects \<open>x\<close> and \<open>y\<close> of different runtime types,
  \<^verbatim>\<open>_compare(x, y, fixed_length=False)\<close> is the concatenation of the same-type comparisons
  of \<open>x\<close> with every relevant object of \<open>y\<close> of the type of \<open>x\<close>, followed by those of every
  relevant object of \<open>x\<close> of the type of \<open>y\<close> with \<open>y\<close>; for objects of the same type it is
  exactly \<^verbatim>\<open>_compare_same_type(x, y)\<close>. In both cases it returns. (The code
  concatenates the two parts in the other order; for supported types one of them is
  always empty.)
\<close>

theorem compare_variable_length:
  assumes "supported x" and "supported y"
  shows "(pytype_of x \<noteq> pytype_of y \<longrightarrow> compare x y False = spec_cross_compare x y)
       \<and> (pytype_of x = pytype_of y \<longrightarrow>
            compare x y False = ebind (compare_same_type x y) (\<lambda>c. Inr (map Some c)))
       \<and> (\<exists>c. compare x y False = Inr c)"
  using assms
  by (cases x; cases y)
     (simp_all add: supported_def compare_def compare_variable_def spec_cross_compare_def Let_def)

theorem compare_variable_length_witness:
  "compare (PyInt 5) (PyList [1, 7]) False = spec_cross_compare (PyInt 5) (PyList [1, 7])
   \<and> compare (PyInt 5) (PyInt 6) False =
       ebind (compare_same_type (PyInt 5) (PyInt 6)) (\<lambda>c. Inr (map Some c))
   \<and> length (projr (compare (PyInt 5) (PyList [1, 7]) False)) = 48"
  using compare_variable_length [of "PyInt 5" "PyList [1, 7]"]
    compare_variable_length [of "PyInt 5" "PyInt 6"]
  by (simp add: supported_def spec_cross_compare_def Let_def)

section \<open>Fixed widths\<close>

lemma basic_signature_variable_bool:
  "\<exists>bs. basic_signature_variable (PyBool b) = Inr bs \<and> length bs = 6"
  by (simp add: basic_signature_variable_def type_property_def Let_def)

lemma basic_signature_variable_int:
  "\<exists>bs. basic_signature_variable (PyInt i) = Inr bs \<and> length bs = 16"
  by (simp add: basic_signature_variable_def type_property_def Let_def)

lemma basic_signature_variable_list:
  "\<exists>bs. basic_signature_variable (PyList l) = Inr bs \<and> length bs = 81"
  by (simp add: basic_signature_variable_def type_property_def Let_def)

lemma BASIC_SIGNATURE_LENGTH_BY_TYPE_eq:
  "BASIC_SIGNATURE_LENGTH_BY_TYPE = [(TBool, 6), (TInt, 16), (TList, 81)]"
proof -
  obtain a where a: "basic_signature_variable (PyBool False) = Inr a" "length a = 6"
    using basic_signature_variable_bool by blast
  obtain b where b: "basic_signature_variable (PyInt 0) = Inr b" "length b = 16"
    using basic_signature_variable_int by blast
  obtain c where c: "basic_signature_variable (PyList []) = Inr c" "length c = 81"
    using basic_signature_variable_list by blast
  show ?thesis
    by (simp add: BASIC_SIGNATURE_LENGTH_BY_TYPE_def DEFAULT_VALUES_def result_len_def a b c)
qed

lemma basic_signature_fixed_len:
  assumes "supported x"
  shows "\<exists>bs. basic_signature x True = Inr bs \<and> length bs = 103"
proof (cases x)
  case (PyBool b)
  obtain a where "basic_signature_variable (PyBool b) = Inr a" "length a = 6"
    using basic_signature_variable_bool by blast
  with PyBool show ?thesis
    by (simp add: basic_signature_def BASIC_SIGNATURE_LENGTH_BY_TYPE_eq DEFAULT_VALUES_def)
next
  case (PyInt i)
  obtain a where "basic_signature_variable (PyInt i) = Inr a" "length a = 16"
    using basic_signature_variable_int by blast
  with PyInt show ?thesis
    by (simp add: basic_signature_def BASIC_SIGNATURE_LENGTH_BY_TYPE_eq DEFAULT_VALUES_def)
next
  case (PyList l)
  obtain a where "basic_signature_variable (PyList l) = Inr a" "length a = 81"
    using basic_signature_variable_list by blast
  with PyList show ?thesis
    by (simp add: basic_signature_def BASIC_SIGNATURE_LENGTH_BY_TYPE_eq DEFAULT_VALUES_def)
next
  case PyNone
  with assms show ?thesis by (simp add: supported_def)
next
  case (PyOther n a)
  with assms show ?thesis by (simp add: supported_def)
qed

lemma COMPARE_LENGTH_BY_TYPES_eq:
  "COMPARE_LENGTH_BY_TYPES =
    [((TBool, TBool), 4), ((TBool, TInt), 0), ((TBool, TList), 0),
     ((TInt, TBool), 0), ((TInt, TInt), 8), ((TInt, TList), 48),
     ((TList, TBool), 0), ((TList, TInt), 48), ((TList, TList), 11)]"
  by (simp add: COMPARE_LENGTH_BY_TYPES_def DEFAULT_VALUES_def result_len_def
      compare_variable_def Let_def)

lemma compare_variable_len:
  assumes "supported x" and "supported y"
  shows "\<exists>c. compare_variable x y = Inr c
            \<and> length c = the (map_of COMPARE_LENGTH_BY_TYPES (pytype_of x, pytype_of y))"
  using assms
  by (cases x; cases y)
     (simp_all add: supported_def compare_variable_def COMPARE_LENGTH_BY_TYPES_eq Let_def)

lemma compare_fixed_len:
  assumes "supported x" and "supported y"
  shows "\<exists>c. compare x y True = Inr c \<and> length c = 119"
proof -
  obtain c where c: "compare_variable x y = Inr c"
      "length c = the (map_of COMPARE_LENGTH_BY_TYPES (pytype_of x, pytype_of y))"
    using compare_variable_len [OF assms] by blast
  from assms have "pytype_of x \<in> {TBool, TInt, TList}" "pytype_of y \<in> {TBool, TInt, TList}"
    by (auto simp: supported_def)
  then show ?thesis using c
    by (auto simp: compare_def COMPARE_LENGTH_BY_TYPES_eq DEFAULT_VALUES_def)
qed

lemma compare_fixed_unsupported:
  assumes "\<not> supported x \<or> \<not> supported y"
  shows "compare x y True = Inr (replicate 119 None)"
proof -
  have "pytype_of x \<notin> {TBool, TInt, TList} \<or> pytype_of y \<notin> {TBool, TInt, TList}"
    using assms by (auto simp: supported_def)
  then show ?thesis
    by (auto simp: compare_def COMPARE_LENGTH_BY_TYPES_eq DEFAULT_VALUES_def
        replicate_add [symmetric] simp del: replicate_add)
qed

lemma property_signature_single_object_len:
  assumes "supported x" and "supported y"
  shows "\<exists>s. property_signature_single_object x y True = Inr s \<and> length s = 222"
proof -
  obtain b where b: "basic_signature x True = Inr b" "length b = 103"
    using basic_signature_fixed_len [OF assms(1)] by blast
  obtain c where c: "compare x y True = Inr c" "length c = 119"
    using compare_fixed_len [OF assms] by blast
  show ?thesis by (simp add: property_signature_single_object_def b c)
qed

section \<open>Objects of unhandled types\<close>

text \<open>
  Claim C2, as stated, fails: on an object of a type outside bool, int and list that has
  no \<^verbatim>\<open>num_free_variables\<close>, here a float, \<^verbatim>\<open>_type_property\<close> returns four false bits and
  \<^verbatim>\<open>_compare\<close> with \<^verbatim>\<open>fixed_length=True\<close> returns its 119 slots of \<^verbatim>\<open>None\<close>; neither
  raises.
\<close>

theorem unhandled_type_counterexample:
  "\<not> supported (PyOther ''float'' None)
   \<and> getattr_num_free_variables (PyOther ''float'' None) = 0
   \<and> type_property (PyOther ''float'' None) = Inr [False, False, False, False]
   \<and> compare (PyOther ''float'' None) (PyInt 0) True = Inr (replicate 119 None)"
  using compare_fixed_unsupported [of "PyOther ''float'' None" "PyInt 0"]
  by (simp add: supported_def type_property_def)

text \<open>
  Claim C2, amended. For every object \<open>x\<close> whose runtime type is outside bool, int and
  list, \<^verbatim>\<open>_basic_properties(x)\<close> and \<^verbatim>\<open>_relevant(x)\<close> raise the unhandled-type
  \<^verbatim>\<open>NotImplementedError\<close>, and so do \<^verbatim>\<open>_compare(x, y, fixed_length=False)\<close> and
  \<^verbatim>\<open>_compare(y, x, fixed_length=False)\<close> for every other object \<open>y\<close> that is a bool, an
  int, a list of integers, or itself an object of a type outside bool, int and list (the
  objects of type \<open>obj\<close>; a list holding anything but integers is not covered).
  \<^verbatim>\<open>_type_property(x)\<close> does not raise: it returns the lambda bit followed by three false
  type bits.
\<close>

theorem unhandled_type_raises:
  assumes "\<not> supported x"
  shows "basic_properties x = Inl NotImplementedError
       \<and> relevant x = Inl NotImplementedError
       \<and> compare x y False = Inl NotImplementedError
       \<and> compare y x False = Inl NotImplementedError
       \<and> type_property x = Inr [getattr_num_free_variables x > 0, False, False, False]"
proof -
  from assms have bp: "basic_properties x = Inl NotImplementedError"
    by (cases x) (simp_all add: supported_def)
  from assms have rel: "relevant x = Inl NotImplementedError"
    by (cases x) (simp_all add: supported_def)
  from assms have tp:
    "type_property x = Inr [getattr_num_free_variables x > 0, False, False, False]"
    by (cases x) (simp_all add: supported_def type_property_def)
  from assms have cst:
    "\<And>z. pytype_of x = pytype_of z \<Longrightarrow> compare_same_type x z = Inl NotImplementedError"
    by (cases x) (auto simp: supported_def split: obj.splits)
  from assms have cst':
    "\<And>z. pytype_of z = pytype_of x \<Longrightarrow> compare_same_type z x = Inl NotImplementedError"
    by (cases x) (auto simp: supported_def split: obj.splits)
  have c1: "compare x y False = Inl NotImplementedError"
    using rel cst by (simp add: compare_def compare_variable_def Let_def)
  have nomatch: "filter (\<lambda>r. pytype_of r = pytype_of x) ry = []"
    if ry: "relevant y = Inr ry" for ry
  proof -
    have "pytype_of r \<noteq> pytype_of x" if "r \<in> set ry" for r
    proof -
      from relevant_types [OF ry that] have "supported r" .
      with assms show ?thesis by (auto simp: supported_def)
    qed
    then show ?thesis by (simp add: filter_empty_conv)
  qed
  have c2: "compare y x False = Inl NotImplementedError"
  proof (cases "pytype_of y = pytype_of x")
    case True
    then show ?thesis using cst' by (simp add: compare_def compare_variable_def Let_def)
  next
    case False
    show ?thesis
    proof (cases "relevant y")
      case (Inl e)
      then have "e = NotImplementedError" by (cases y) (simp_all add: Let_def)
      with Inl False show ?thesis by (simp add: compare_def compare_variable_def Let_def)
    next
      case (Inr ry)
      with False nomatch [OF Inr] rel show ?thesis
        by (simp add: compare_def compare_variable_def Let_def)
    qed
  qed
  from bp rel tp c1 c2 show ?thesis by simp
qed

theorem unhandled_type_raises_witness:
  "basic_properties (PyOther ''float'' None) = Inl NotImplementedError
   \<and> relevant (PyOther ''float'' None) = Inl NotImplementedError
   \<and> compare (PyOther ''float'' None) (PyInt 0) False = Inl NotImplementedError
   \<and> compare (PyInt 0) (PyOther ''float'' None) False = Inl NotImplementedError
   \<and> type_property (PyOther ''float'' None) = Inr [False, False, False, False]"
  using unhandled_type_raises [of "PyOther ''float'' None" "PyInt 0"]
  by (simp add: supported_def)

section \<open>Reduction across examples: the result\<close>

lemma emap_all:
  assumes "\<And>x. x \<in> set xs \<Longrightarrow> \<exists>y. f x = Inr y \<and> P y"
  shows "\<exists>ys. emap f xs = Inr ys \<and> length ys = length xs \<and> (\<forall>y\<in>set ys. P y)"
  using assms
proof (induction xs)
  case Nil
  then show ?case by simp
next
  case (Cons x xs)
  from Cons.prems obtain y where y: "f x = Inr y" "P y" by auto
  from Cons obtain ys where ys: "emap f xs = Inr ys" "length ys = length xs" "\<forall>y\<in>set ys. P y"
    by auto
  show ?case using y ys by simp
qed

lemma length_concat_const:
  "\<forall>y\<in>set ys. length y = k \<Longrightarrow> length (concat ys) = k * length ys"
  by (induction ys) simp_all

lemma fold_min_const: "\<forall>l\<in>set ls. l = (n::nat) \<Longrightarrow> fold min ls n = n"
  by (induction ls) simp_all

lemma zip_star_columns:
  assumes "xss \<noteq> []" and "\<forall>xs\<in>set xss. length xs = n"
  shows "zip_star xss = map (\<lambda>i. map (\<lambda>xs. xs ! i) xss) [0 ..< n]"
proof -
  from assms have hd: "length (hd xss) = n" by (cases xss) simp_all
  from assms have "\<forall>l\<in>set (map length (tl xss)). l = n" by (cases xss) simp_all
  then have "fold min (map length (tl xss)) n = n" by (rule fold_min_const)
  with assms(1) hd show ?thesis by (simp add: zip_star_def)
qed

lemma count_true:
  "sum_list (map (\<lambda>b. if b then 1 else 0) (map the (filter (\<lambda>x. x \<noteq> None) col)))
     = length (filter (\<lambda>v. v = Some True) (filter (\<lambda>v. v \<noteq> None) col))"
proof (induction col)
  case Nil
  then show ?case by simp
next
  case (Cons a col)
  then show ?case by (cases a) auto
qed

lemma reduce_column_spec:
  "reduce_column (length col) col = spec_reduced col"
  unfolding reduce_column_def spec_reduced_def Let_def count_true by simp

lemma reduce_column_all_None:
  assumes "\<forall>v\<in>set col. v = None"
  shows "reduce_column k col = (0, False, False, 1 / 2)"
proof -
  from assms have "filter (\<lambda>x. x \<noteq> None) col = []" by (simp add: filter_empty_conv)
  then show ?thesis by (simp add: reduce_column_def)
qed

lemma reduce_across_examples_columns:
  assumes "signatures \<noteq> []" and "\<forall>sig\<in>set signatures. length sig = n"
  shows "reduce_across_examples signatures =
           Inr (map (\<lambda>i. reduce_column (length signatures) (map (\<lambda>sig. sig ! i) signatures)) [0 ..< n])"
proof -
  from assms have hd: "length (hd signatures) = n" by (cases signatures) simp_all
  from assms(2) hd have "list_all (\<lambda>sig. length sig = length (hd signatures)) signatures"
    by (simp add: list_all_iff)
  with assms(1) show ?thesis
    by (simp add: reduce_across_examples_def Let_def zip_star_columns [OF assms] comp_def)
qed

text \<open>
  Claim C5. For a list of signatures that is not empty and whose members all have the
  length \<open>n\<close>, \<^verbatim>\<open>_reduce_across_examples\<close> returns \<open>n\<close> tuples, in the order of the
  positions; the tuple of position \<open>i\<close> is the reduced feature of the specification for the
  column \<open>i\<close>: coverage the number of entries that are not \<^verbatim>\<open>None\<close> over the number of
  signatures, fraction the mean of those entries or one half when there is none, and the
  flags whether the fraction is exactly 1 and exactly 0. A position that is \<^verbatim>\<open>None\<close> in
  every signature reduces to \<open>(0, False, False, 1/2)\<close>.
\<close>

theorem reduce_across_examples_spec:
  assumes "signatures \<noteq> []" and "\<forall>sig\<in>set signatures. length sig = n"
  shows "\<exists>r. reduce_across_examples signatures = Inr r \<and> length r = n
           \<and> (\<forall>i<n. r ! i = spec_reduced (map (\<lambda>sig. sig ! i) signatures))
           \<and> (\<forall>i<n. (\<forall>sig\<in>set signatures. sig ! i = None) \<longrightarrow> r ! i = (0, False, False, 1 / 2))"
proof -
  let ?col = "\<lambda>i. map (\<lambda>sig. sig ! i) signatures"
  let ?r = "map (\<lambda>i. reduce_column (length signatures) (?col i)) [0 ..< n]"
  have r: "reduce_across_examples signatures = Inr ?r"
    by (rule reduce_across_examples_columns [OF assms])
  have len: "length ?r = n" by simp
  have spec: "?r ! i = spec_reduced (?col i)" if "i < n" for i
    using that reduce_column_spec [of "?col i"] by simp
  have pad: "?r ! i = (0, False, False, 1 / 2)"
    if "i < n" and "\<forall>sig\<in>set signatures. sig ! i = None" for i
    using that reduce_column_all_None [of "?col i" "length signatures"] by simp
  from r len spec pad show ?thesis by blast
qed

theorem reduce_across_examples_spec_witness:
  "reduce_across_examples [[None, Some True, Some False], [None, Some True, Some True]]
     = Inr [(0, False, False, 1 / 2), (1, True, False, 1), (1, False, False, 1 / 2)]"
proof -
  let ?s = "[[None, Some True, Some False], [None, Some True, Some True]]"
  have a: "?s \<noteq> []" by simp
  have b: "\<forall>sig\<in>set ?s. length sig = 3" by simp
  from reduce_across_examples_spec [of ?s 3, OF a b]
  obtain r where r: "reduce_across_examples ?s = Inr r" "length r = 3"
    "\<forall>i<3. r ! i = spec_reduced (map (\<lambda>sig. sig ! i) ?s)" by blast
  from r(3) have "r ! 0 = spec_reduced (map (\<lambda>sig. sig ! 0) ?s)"
    "r ! 1 = spec_reduced (map (\<lambda>sig. sig ! 1) ?s)"
    "r ! 2 = spec_reduced (map (\<lambda>sig. sig ! 2) ?s)"
    by simp_all
  then have "r ! 0 = (0, False, False, 1 / 2)" "r ! 1 = (1, True, False, 1)"
    "r ! 2 = (1, False, False, 1 / 2)"
    by (simp_all add: spec_reduced_def Let_def del: not_None_eq)
  with r(2) have "r = [(0, False, False, 1 / 2), (1, True, False, 1), (1, False, False, 1 / 2)]"
    by (simp add: list_eq_iff_nth_eq less_Suc_eq numeral_3_eq_3 numeral_2_eq_2)
  with r(1) show ?thesis by simp
qed

section \<open>The width of the signature of one example\<close>

lemma reduce_across_examples_len:
  assumes "signatures \<noteq> []" and "\<forall>sig\<in>set signatures. length sig = n"
  shows "\<exists>r. reduce_across_examples signatures = Inr r \<and> length r = n"
  using reduce_across_examples_columns [OF assms] by simp

lemma input_signature_len:
  assumes "supported i" and "supported output"
  shows "\<exists>s. ebind (basic_signature i True) (\<lambda>bi.
              ebind (compare i output True) (\<lambda>ci. Inr (bi @ ci))) = Inr s \<and> length s = 222"
proof -
  obtain b where b: "basic_signature i True = Inr b" "length b = 103"
    using basic_signature_fixed_len [OF assms(1)] by blast
  obtain c where c: "compare i output True = Inr c" "length c = 119"
    using compare_fixed_len [OF assms] by blast
  show ?thesis by (simp add: b c)
qed

lemma property_signature_single_example_len:
  assumes "inputs \<noteq> []" and "\<forall>i\<in>set inputs. supported i" and "supported output"
  shows "\<exists>s. property_signature_single_example inputs output True = Inr s \<and> length s = 769"
proof -
  define ins where "ins = (if length inputs > FIXED_NUM_INPUTS then take FIXED_NUM_INPUTS inputs else inputs)"
  from assms(1) have pos: "0 < length inputs" by simp
  have "length ins = min 3 (length inputs)"
    unfolding ins_def FIXED_NUM_INPUTS_def by simp
  with pos have ins_len: "length ins = 1 \<or> length ins = 2 \<or> length ins = 3"
    by arith
  have ins_sup: "\<forall>i\<in>set ins. supported i"
    using assms(2) unfolding ins_def by (auto dest: in_set_takeD)
  obtain b where b: "basic_signature output True = Inr b" "length b = 103"
    using basic_signature_fixed_len [OF assms(3)] by blast
  let ?f = "\<lambda>i. ebind (basic_signature i True) (\<lambda>bi.
              ebind (compare i output True) (\<lambda>ci. Inr (bi @ ci)))"
  have "\<exists>ys. emap ?f ins = Inr ys \<and> length ys = length ins \<and> (\<forall>y\<in>set ys. length y = 222)"
    by (rule emap_all) (use ins_sup assms(3) input_signature_len in blast)
  then obtain ys where ys: "emap ?f ins = Inr ys" "length ys = length ins"
      "\<forall>y\<in>set ys. length y = 222" by blast
  have cl: "length (concat ys) = 222 * length ins"
    using length_concat_const [OF ys(3)] ys(2) by simp
  have unfold: "property_signature_single_example inputs output True =
      (let result = b @ concat ys in
       if length ins < FIXED_NUM_INPUTS then
         if length ins = 0 then Inl ZeroDivisionError
         else if (length result - length b) mod length ins \<noteq> 0 then Inl AssertionError
         else Inr (result @ replicate
                     ((length result - length b) div length ins *
                      (FIXED_NUM_INPUTS - length ins)) None)
       else Inr result)"
    unfolding property_signature_single_example_def ins_def [symmetric]
    by (simp add: Let_def b ys ins_def [symmetric])
  from ins_len show ?thesis
    unfolding unfold by (auto simp: Let_def b cl FIXED_NUM_INPUTS_def)
qed

text \<open>
  Claim C3 fails on the code for the empty list of inputs: the length contributed per
  input is computed by a division by the number of inputs, so with no input
  \<^verbatim>\<open>_property_signature_single_example\<close> raises \<^verbatim>\<open>ZeroDivisionError\<close> instead of padding
  to the width 769 that it returns for one, two and three inputs. The empty list reaches
  it through \<^verbatim>\<open>property_signature_io_examples\<close> with no input value.
\<close>

theorem single_example_no_inputs:
  "property_signature_single_example [] (PyInt 0) True = Inl ZeroDivisionError
   \<and> property_signature_io_examples [] (OutputValue [PyInt 0]) True = Inl ZeroDivisionError"
proof -
  have s: "supported (PyInt 0)" by (simp add: supported_def)
  obtain b where b: "basic_signature (PyInt 0) True = Inr b"
    using basic_signature_fixed_len [OF s] by blast
  have e: "property_signature_single_example [] (PyInt 0) True = Inl ZeroDivisionError"
    by (simp add: property_signature_single_example_def Let_def b FIXED_NUM_INPUTS_def)
  then show ?thesis
    by (simp add: property_signature_io_examples_def OutputValue_def num_examples_def
        getitem_def)
qed

section \<open>The lambda sampler\<close>

lemma try_call_append: "try_call i (fn, io) = io @ try_call i (fn, [])"
  by (simp add: try_call_def split: outcome.splits)

lemma fold_try_call:
  assumes "length st = length vs"
  shows "length (fold (\<lambda>i st. map (try_call i) (zip vs st)) ps st) = length vs
       \<and> (\<forall>j<length vs. fold (\<lambda>i st. map (try_call i) (zip vs st)) ps st ! j
             = st ! j @ concat (map (\<lambda>i. try_call i (vs ! j, [])) ps))"
  using assms
proof (induction ps arbitrary: st)
  case Nil
  then show ?case by simp
next
  case (Cons p ps)
  let ?st = "map (try_call p) (zip vs st)"
  from Cons.prems have len: "length ?st = length vs" by simp
  have nth: "?st ! j = st ! j @ try_call p (vs ! j, [])" if "j < length vs" for j
    using that Cons.prems try_call_append [of p "vs ! j" "st ! j"] by simp
  from Cons.IH [OF len] nth show ?case by simp
qed

lemma run_lambda_samples:
  assumes "num_free_variables v > 0"
  shows "run_lambda v =
           Inr (map (\<lambda>fn. concat (map (\<lambda>i. try_call i (fn, []))
                                    (product_repeat inputs_to_try (num_free_variables v))))
                    (values_of v))"
proof -
  let ?ps = "product_repeat inputs_to_try (num_free_variables v)"
  let ?vs = "values_of v"
  let ?st = "replicate (length ?vs) ([] :: (obj list \<times> obj) list)"
  have "length ?st = length ?vs" by simp
  from fold_try_call [OF this, of ?ps]
  have "fold (\<lambda>i st. map (try_call i) (zip ?vs st)) ?ps ?st
          = map (\<lambda>fn. concat (map (\<lambda>i. try_call i (fn, [])) ?ps)) ?vs"
    by (intro nth_equalityI) simp_all
  with assms show ?thesis by (simp add: run_lambda_def Let_def num_examples_def)
qed

lemma sample_iff:
  "(inputs, r) \<in> set (concat (map (\<lambda>i. try_call i (fn, [])) ps))
     \<longleftrightarrow> inputs \<in> set ps \<and> call fn inputs = Returns r \<and> r \<noteq> PyNone"
  by (auto simp: try_call_def split: outcome.splits if_splits)

lemma no_samples:
  assumes "\<forall>args\<in>set ps. call fn args = Raises \<or> call fn args = Returns PyNone"
  shows "concat (map (\<lambda>i. try_call i (fn, [])) ps) = []"
  using assms by (auto simp: try_call_def split: outcome.splits)

lemma product_repeat_members:
  "inputs \<in> set (product_repeat xs k) \<Longrightarrow> length inputs = k \<and> set inputs \<subseteq> set xs"
  by (induction k arbitrary: inputs) (simp, fastforce)

lemma inputs_to_try_supported: "\<forall>x\<in>set inputs_to_try. supported x"
  by (simp add: inputs_to_try_def VALUES_TO_TRY_def supported_def)


lemma emap_rel:
  assumes "\<And>x. x \<in> set xs \<Longrightarrow> \<exists>y. f x = Inr y \<and> R x y"
  shows "\<exists>ys. emap f xs = Inr ys \<and> list_all2 R xs ys"
  using assms
proof (induction xs)
  case Nil
  then show ?case by simp
next
  case (Cons x xs)
  from Cons.prems obtain y where y: "f x = Inr y" "R x y" by auto
  from Cons obtain ys where ys: "emap f xs = Inr ys" "list_all2 R xs ys" by auto
  show ?case using y ys by simp
qed

lemma emap_fails:
  assumes "\<forall>x\<in>set xs. (\<exists>y. f x = Inr y) \<or> f x = Inl e" and "\<exists>x\<in>set xs. f x = Inl e"
  shows "emap f xs = Inl e"
  using assms
proof (induction xs)
  case Nil
  then show ?case by simp
next
  case (Cons x xs)
  show ?case
  proof (cases "f x")
    case (Inl e')
    with Cons.prems(1) have "e' = e" by auto
    with Inl show ?thesis by simp
  next
    case (Inr y)
    with Cons.prems have "\<exists>x\<in>set xs. f x = Inl e" by auto
    with Cons have "emap f xs = Inl e" by simp
    with Inr show ?thesis by simp
  qed
qed

lemma list_all2_rhs: "list_all2 R xs ys \<Longrightarrow> y \<in> set ys \<Longrightarrow> \<exists>x\<in>set xs. R x y"
  by (induction rule: list_all2_induct) auto

lemma enumerate_members:
  "(j, x) \<in> set (enumerate 0 xs) \<Longrightarrow> j < length xs \<and> x = xs ! j"
  by (simp add: in_set_enumerate_eq)

lemma type_property_value_obj:
  "type_property (value_obj v) = Inr [num_free_variables v > 0, False, False, False]"
  by (simp add: type_property_def value_obj_def)

lemma lambda_sample_signature_len:
  assumes "inputs \<noteq> []" and "\<forall>i\<in>set inputs. supported i" and "supported output"
    and "getitem output_value j = Inr out" and "supported out"
  shows "\<exists>s. ebind (type_property (value_obj v)) (\<lambda>tp.
              ebind (getitem output_value j) (\<lambda>out.
              ebind (compare output out True) (\<lambda>c.
              ebind (property_signature_single_example inputs output True) (\<lambda>s.
              Inr (map Some tp @ c @ s))))) = Inr s \<and> length s = 892"
proof -
  obtain c where c: "compare output out True = Inr c" "length c = 119"
    using compare_fixed_len [OF assms(3) assms(5)] by blast
  obtain s where s: "property_signature_single_example inputs output True = Inr s" "length s = 769"
    using property_signature_single_example_len [OF assms(1-3)] by blast
  show ?thesis by (simp add: type_property_value_obj assms(4) c s)
qed

lemma property_signature_lambda_global_len:
  assumes arity: "num_free_variables v > 0"
    and ex: "num_examples v \<le> num_examples output_value"
    and out: "\<forall>e\<in>set (values_of output_value). supported (entry_obj e)"
    and res: "\<forall>fn\<in>set (values_of v).
        \<forall>args\<in>set (product_repeat inputs_to_try (num_free_variables v)).
          \<forall>r. call fn args = Returns r \<longrightarrow> r = PyNone \<or> supported r"
    and some: "\<exists>fn\<in>set (values_of v).
        \<exists>args\<in>set (product_repeat inputs_to_try (num_free_variables v)).
          \<exists>r. call fn args = Returns r \<and> r \<noteq> PyNone"
  shows "\<exists>r. property_signature_lambda_global g v output_value True = Inr r \<and> length r = 892"
proof -
  let ?ps = "product_repeat inputs_to_try (num_free_variables v)"
  define S where "S = (\<lambda>fn. concat (map (\<lambda>i. try_call i (fn, [])) ?ps))"
  define io where "io = map S (values_of v)"
  let ?inner = "\<lambda>example_index. \<lambda>(inputs, output).
                 ebind (type_property (value_obj v)) (\<lambda>tp.
                 ebind (getitem output_value example_index) (\<lambda>out.
                 ebind (compare output out True) (\<lambda>c.
                 ebind (property_signature_single_example inputs output True) (\<lambda>s.
                 Inr (map Some tp @ c @ s)))))"
  let ?outer = "\<lambda>(example_index, pairs). emap (?inner example_index) pairs"
  let ?R = "\<lambda>(p :: nat \<times> (obj list \<times> obj) list) (sigs :: bool option list list).
              length sigs = length (snd p) \<and> (\<forall>s\<in>set sigs. length s = 892)"
  have run: "run_lambda v = Inr io"
    unfolding io_def S_def by (rule run_lambda_samples [OF arity])
  have S_iff: "(inputs, r) \<in> set (S fn)
      \<longleftrightarrow> inputs \<in> set ?ps \<and> call fn inputs = Returns r \<and> r \<noteq> PyNone" for inputs r fn
    unfolding S_def by (rule sample_iff)
  from some obtain fn args r where w: "fn \<in> set (values_of v)" "args \<in> set ?ps"
      "call fn args = Returns r" "r \<noteq> PyNone" by blast
  then have "(args, r) \<in> set (S fn)" using S_iff by blast
  then have Sfn: "S fn \<noteq> []" by (metis list.set(1) empty_iff)
  from w(1) obtain k where k: "k < length (values_of v)" "values_of v ! k = fn"
    by (auto simp: in_set_conv_nth)
  then have iok: "k < length io" "io ! k \<noteq> []" using Sfn by (simp_all add: io_def)
  then have "io ! k \<in> set io" by simp
  with iok(2) have notall: "\<not> list_all (\<lambda>pairs. pairs = []) io"
    unfolding list_all_iff by blast
  have step: "\<exists>sigs. ?outer p = Inr sigs \<and> ?R p sigs" if p: "p \<in> set (enumerate 0 io)" for p
  proof -
    obtain j pairs where jp: "p = (j, pairs)" by (cases p)
    with p enumerate_members [of j pairs io]
    have j: "j < length (values_of v)" and pairs: "pairs = S (values_of v ! j)"
      by (simp_all add: io_def)
    from j ex have j': "j < length (values_of output_value)" by (simp add: num_examples_def)
    then have gi: "getitem output_value j = Inr (entry_obj (values_of output_value ! j))"
      by (simp add: getitem_def)
    from j' out have so: "supported (entry_obj (values_of output_value ! j))" by simp
    have one: "\<exists>s. ?inner j q = Inr s \<and> length s = 892" if q: "q \<in> set pairs" for q
    proof -
      obtain inputs outp where io: "q = (inputs, outp)" by (cases q)
      with q pairs have "(inputs, outp) \<in> set (S (values_of v ! j))" by simp
      then have m: "inputs \<in> set ?ps" "call (values_of v ! j) inputs = Returns outp"
          "outp \<noteq> PyNone"
        using S_iff by blast+
      from m(1) product_repeat_members [of inputs inputs_to_try "num_free_variables v"]
      have li: "length inputs = num_free_variables v" "set inputs \<subseteq> set inputs_to_try" by simp_all
      from li(1) arity have ne: "inputs \<noteq> []" by auto
      from li(2) inputs_to_try_supported have si: "\<forall>i\<in>set inputs. supported i" by blast
      from res j m have sr: "supported outp" by (metis nth_mem)
      from lambda_sample_signature_len [OF ne si sr gi so, of v] io show ?thesis by simp
    qed
    have "\<exists>ys. emap (?inner j) pairs = Inr ys \<and> length ys = length pairs
             \<and> (\<forall>y\<in>set ys. length y = 892)"
      by (rule emap_all) (use one in blast)
    with jp show ?thesis by simp
  qed
  have "\<exists>ys. emap ?outer (enumerate 0 io) = Inr ys \<and> list_all2 ?R (enumerate 0 io) ys"
    by (rule emap_rel) (use step in blast)
  then obtain ys where ys: "emap ?outer (enumerate 0 io) = Inr ys"
      "list_all2 ?R (enumerate 0 io) ys" by blast
  have all892: "\<forall>s\<in>set (concat ys). length s = 892"
  proof
    fix s assume "s \<in> set (concat ys)"
    then obtain y where y: "y \<in> set ys" "s \<in> set y" by auto
    from list_all2_rhs [OF ys(2) y(1)] obtain p where "?R p y" by blast
    with y(2) show "length s = 892" by simp
  qed
  from ys(2) iok(1) have "length (ys ! k) = length (snd (enumerate 0 io ! k))" "k < length ys"
    by (auto simp: list_all2_conv_all_nth)
  with iok have "ys ! k \<noteq> []" "ys ! k \<in> set ys" by (auto simp: nth_enumerate_eq)
  then have nonempty: "concat ys \<noteq> []" by auto
  obtain r where "reduce_across_examples (concat ys) = Inr r" "length r = 892"
    using reduce_across_examples_len [OF nonempty all892] by blast
  with run notall ys(1) show ?thesis
    by (simp add: property_signature_lambda_global_def)
qed

section \<open>The widths of the signatures of values\<close>

lemma property_signature_concrete_value_len:
  assumes "num_free_variables v = 0"
    and "num_examples v = num_examples output_value"
    and "num_examples output_value > 0"
    and "\<forall>e\<in>set (values_of v). supported (entry_obj e)"
    and "\<forall>e\<in>set (values_of output_value). supported (entry_obj e)"
  shows "\<exists>r. property_signature_concrete_value v output_value True = Inr r \<and> length r = 222"
proof -
  let ?n = "num_examples output_value"
  let ?f = "\<lambda>i. ebind (getitem v i) (\<lambda>x.
                ebind (getitem output_value i) (\<lambda>output.
                property_signature_single_object x output True))"
  have one: "\<exists>s. ?f i = Inr s \<and> length s = 222" if "i \<in> set [0 ..< ?n]" for i
  proof -
    from that assms(2) have i: "i < length (values_of v)" "i < length (values_of output_value)"
      by (simp_all add: num_examples_def)
    with assms(4,5) have "supported (entry_obj (values_of v ! i))"
        "supported (entry_obj (values_of output_value ! i))" by simp_all
    from property_signature_single_object_len [OF this] i show ?thesis
      by (simp add: getitem_def)
  qed
  have "\<exists>ys. emap ?f [0 ..< ?n] = Inr ys \<and> length ys = length [0 ..< ?n]
           \<and> (\<forall>y\<in>set ys. length y = 222)"
    by (rule emap_all) (use one in blast)
  then obtain ys where ys: "emap ?f [0 ..< ?n] = Inr ys" "length ys = ?n"
      "\<forall>y\<in>set ys. length y = 222" by auto
  from ys(2) assms(3) have "ys \<noteq> []" by auto
  from reduce_across_examples_len [OF this ys(3)] ys(1) assms(1) show ?thesis
    by (simp add: property_signature_concrete_value_def)
qed

lemma SIGNATURE_LENGTH_CONCRETE_VALUE_eq: "SIGNATURE_LENGTH_CONCRETE_VALUE = 222"
proof -
  have "\<exists>r. property_signature_concrete_value (ConstantValue (PyInt 0)) (OutputValue [PyInt 1]) True
          = Inr r \<and> length r = 222"
    by (rule property_signature_concrete_value_len)
       (simp_all add: ConstantValue_def OutputValue_def num_examples_def supported_def)
  then show ?thesis by (auto simp: SIGNATURE_LENGTH_CONCRETE_VALUE_def result_len_def)
qed

lemma singleton_probe: "x \<in> set xs \<Longrightarrow> [x] \<in> set (product_repeat xs (Suc 0))"
  by auto

lemma zero_in_inputs_to_try: "PyInt 0 \<in> set inputs_to_try"
  by (simp add: inputs_to_try_def VALUES_TO_TRY_def upto.simps)

lemma LAMBDA_VALUE_len:
  "\<exists>r. property_signature_lambda_global g LAMBDA_VALUE (OutputValue [PyInt 1]) True = Inr r
       \<and> length r = 892"
proof (rule property_signature_lambda_global_len)
  show "num_free_variables LAMBDA_VALUE > 0" by (simp add: LAMBDA_VALUE_def)
  show "num_examples LAMBDA_VALUE \<le> num_examples (OutputValue [PyInt 1])"
    by (simp add: LAMBDA_VALUE_def OutputValue_def num_examples_def)
  show "\<forall>e\<in>set (values_of (OutputValue [PyInt 1])). supported (entry_obj e)"
    by (simp add: OutputValue_def supported_def)
  show "\<forall>fn\<in>set (values_of LAMBDA_VALUE).
        \<forall>args\<in>set (product_repeat inputs_to_try (num_free_variables LAMBDA_VALUE)).
          \<forall>r. call fn args = Returns r \<longrightarrow> r = PyNone \<or> supported r"
    by (auto simp: LAMBDA_VALUE_def supported_def split: list.splits obj.splits)
  let ?fn = "Fn (\<lambda>args. case args of [PyInt x] \<Rightarrow> Returns (PyInt (10 + x)) | _ \<Rightarrow> Raises)"
  have fn: "?fn \<in> set (values_of LAMBDA_VALUE)" by (simp add: LAMBDA_VALUE_def)
  have p: "[PyInt 0] \<in> set (product_repeat inputs_to_try (num_free_variables LAMBDA_VALUE))"
    using singleton_probe [OF zero_in_inputs_to_try] by (simp add: LAMBDA_VALUE_def)
  have c: "call ?fn [PyInt 0] = Returns (PyInt 10) \<and> PyInt 10 \<noteq> PyNone" by simp
  from fn p c show "\<exists>fn\<in>set (values_of LAMBDA_VALUE).
        \<exists>args\<in>set (product_repeat inputs_to_try (num_free_variables LAMBDA_VALUE)).
          \<exists>r. call fn args = Returns r \<and> r \<noteq> PyNone"
    by blast
qed

lemma SIGNATURE_LENGTH_LAMBDA_VALUE_eq: "SIGNATURE_LENGTH_LAMBDA_VALUE = 892"
  using LAMBDA_VALUE_len [of None]
  by (auto simp: SIGNATURE_LENGTH_LAMBDA_VALUE_def result_len_def)

lemma property_signature_value_concrete_len:
  assumes "num_free_variables v = 0"
    and "num_examples v = num_examples output_value"
    and "num_examples output_value > 0"
    and "\<forall>e\<in>set (values_of v). supported (entry_obj e)"
    and "\<forall>e\<in>set (values_of output_value). supported (entry_obj e)"
  shows "\<exists>r. property_signature_value v output_value True = Inr r \<and> length r = 1114"
proof -
  obtain c where "property_signature_concrete_value v output_value True = Inr c" "length c = 222"
    using property_signature_concrete_value_len [OF assms] by blast
  with assms(1) show ?thesis
    by (simp add: property_signature_value_def SIGNATURE_LENGTH_LAMBDA_VALUE_eq)
qed

lemma VALUE_SIGNATURE_LENGTH_eq: "VALUE_SIGNATURE_LENGTH = 1114"
proof -
  have "\<exists>r. property_signature_value (InputVariable [PyInt 1, PyInt 2])
              (OutputValue [PyInt (-1), PyInt (-2)]) True = Inr r \<and> length r = 1114"
    by (rule property_signature_value_concrete_len)
       (simp_all add: InputVariable_def OutputValue_def num_examples_def supported_def)
  then show ?thesis by (auto simp: VALUE_SIGNATURE_LENGTH_def result_len_def)
qed

lemma property_signature_value_lambda_len:
  assumes arity: "num_free_variables v > 0"
    and ex: "num_examples v = num_examples output_value"
    and out: "\<forall>e\<in>set (values_of output_value). supported (entry_obj e)"
    and res: "\<forall>fn\<in>set (values_of v).
        \<forall>args\<in>set (product_repeat inputs_to_try (num_free_variables v)).
          \<forall>r. call fn args = Returns r \<longrightarrow> r = PyNone \<or> supported r"
  shows "\<exists>r. property_signature_value v output_value True = Inr r \<and> length r = 1114"
proof (cases "\<exists>fn\<in>set (values_of v).
        \<exists>args\<in>set (product_repeat inputs_to_try (num_free_variables v)).
          \<exists>r. call fn args = Returns r \<and> r \<noteq> PyNone")
  case True
  from ex have "num_examples v \<le> num_examples output_value" by simp
  from property_signature_lambda_global_len [OF arity this out res True]
  obtain r where "property_signature_lambda v output_value True = Inr r" "length r = 892"
    unfolding property_signature_lambda_def by blast
  with arity show ?thesis
    by (simp add: property_signature_value_def SIGNATURE_LENGTH_CONCRETE_VALUE_eq)
next
  case False
  let ?ps = "product_repeat inputs_to_try (num_free_variables v)"
  have none: "\<forall>args\<in>set ?ps. call fn args = Raises \<or> call fn args = Returns PyNone"
    if "fn \<in> set (values_of v)" for fn
  proof
    fix args assume "args \<in> set ?ps"
    with False that show "call fn args = Raises \<or> call fn args = Returns PyNone"
      by (cases "call fn args") auto
  qed
  have "list_all (\<lambda>pairs. pairs = [])
          (map (\<lambda>fn. concat (map (\<lambda>i. try_call i (fn, [])) ?ps)) (values_of v))"
    using none no_samples [of ?ps] by (simp add: list_all_iff)
  then have "property_signature_lambda v output_value True
           = Inr (replicate SIGNATURE_LENGTH_LAMBDA_VALUE REDUCED_PADDING)"
    by (simp add: property_signature_lambda_def property_signature_lambda_global_def
        run_lambda_samples [OF arity])
  with arity show ?thesis
    by (simp add: property_signature_value_def SIGNATURE_LENGTH_CONCRETE_VALUE_eq
        SIGNATURE_LENGTH_LAMBDA_VALUE_eq)
qed


text \<open>
  A concrete value without any example does not reach a signature: the reduction asserts
  that it is given at least one.
\<close>

lemma concrete_value_no_examples:
  "property_signature_value (OutputValue []) (OutputValue []) True = Inl AssertionError"
  by (simp add: property_signature_value_def property_signature_concrete_value_def
      OutputValue_def num_examples_def reduce_across_examples_def)

text \<open>
  Claim C6. A functional value of positive arity none of whose callables yields a
  successful sample over the whole product of probes (every call raises or returns
  \<^verbatim>\<open>None\<close>) has, without error, the signature made of \<^verbatim>\<open>_SIGNATURE_LENGTH_LAMBDA_VALUE\<close>
  (that is 892) copies of the reduced padding \<open>(0, False, False, 1/2)\<close>, and this is the
  lambda block of \<^verbatim>\<open>property_signature_value\<close>.
\<close>

theorem lambda_without_samples:
  assumes "num_free_variables v > 0"
    and "\<forall>fn\<in>set (values_of v).
           \<forall>args\<in>set (product_repeat inputs_to_try (num_free_variables v)).
             call fn args = Raises \<or> call fn args = Returns PyNone"
  shows "property_signature_lambda v output_value fixed_length
           = Inr (replicate SIGNATURE_LENGTH_LAMBDA_VALUE REDUCED_PADDING)
       \<and> property_signature_value v output_value True
           = Inr (replicate SIGNATURE_LENGTH_CONCRETE_VALUE REDUCED_PADDING
                  @ replicate SIGNATURE_LENGTH_LAMBDA_VALUE REDUCED_PADDING)
       \<and> SIGNATURE_LENGTH_LAMBDA_VALUE = 892 \<and> REDUCED_PADDING = (0, False, False, 1 / 2)"
proof -
  let ?ps = "product_repeat inputs_to_try (num_free_variables v)"
  have "list_all (\<lambda>pairs. pairs = [])
          (map (\<lambda>fn. concat (map (\<lambda>i. try_call i (fn, [])) ?ps)) (values_of v))"
    using assms(2) no_samples [of ?ps] by (simp add: list_all_iff)
  then have l: "property_signature_lambda v output_value fl
           = Inr (replicate SIGNATURE_LENGTH_LAMBDA_VALUE REDUCED_PADDING)" for fl
    by (simp add: property_signature_lambda_def property_signature_lambda_global_def
        run_lambda_samples [OF assms(1)])
  from assms(1) l [of True] l [of fixed_length] show ?thesis
    by (simp add: property_signature_value_def SIGNATURE_LENGTH_LAMBDA_VALUE_eq
        REDUCED_PADDING_def)
qed

theorem lambda_without_samples_witness:
  "property_signature_lambda \<lparr>values_of = [Fn (\<lambda>args. Raises), Fn (\<lambda>args. Returns PyNone)],
                               num_free_variables = 2\<rparr>
      (OutputValue [PyInt 1, PyInt 2]) True
     = Inr (replicate SIGNATURE_LENGTH_LAMBDA_VALUE REDUCED_PADDING)"
  using lambda_without_samples
    [of "\<lparr>values_of = [Fn (\<lambda>args. Raises), Fn (\<lambda>args. Returns PyNone)], num_free_variables = 2\<rparr>"
        "OutputValue [PyInt 1, PyInt 2]" True]
  by simp

text \<open>
  Claim C1. Let a value and an output value share their number of examples, over the
  supported types: the entries of the output value and of a concrete value are bools,
  ints or lists, a concrete value has at least one example, and whatever a callable of a
  functional value returns on the probes is \<^verbatim>\<open>None\<close> or a bool, int or list. Then
  \<^verbatim>\<open>property_signature_value\<close> with \<^verbatim>\<open>fixed_length=True\<close> returns a list of
  \<^verbatim>\<open>VALUE_SIGNATURE_LENGTH\<close> reduced tuples, whether the value is concrete or functional,
  and this constant is the sum of the widths of the concrete and of the lambda block.
\<close>

theorem property_signature_value_fixed_length:
  assumes "num_examples v = num_examples output_value"
    and "\<forall>e\<in>set (values_of output_value). supported (entry_obj e)"
    and "num_free_variables v = 0 \<longrightarrow>
           num_examples v > 0 \<and> (\<forall>e\<in>set (values_of v). supported (entry_obj e))"
    and "num_free_variables v > 0 \<longrightarrow>
           (\<forall>fn\<in>set (values_of v).
              \<forall>args\<in>set (product_repeat inputs_to_try (num_free_variables v)).
                \<forall>r. call fn args = Returns r \<longrightarrow> r = PyNone \<or> supported r)"
  shows "(\<exists>r. property_signature_value v output_value True = Inr r
              \<and> length r = VALUE_SIGNATURE_LENGTH)
       \<and> VALUE_SIGNATURE_LENGTH = SIGNATURE_LENGTH_CONCRETE_VALUE + SIGNATURE_LENGTH_LAMBDA_VALUE"
proof (cases "num_free_variables v = 0")
  case True
  with assms have "\<exists>r. property_signature_value v output_value True = Inr r \<and> length r = 1114"
    by (intro property_signature_value_concrete_len) simp_all
  then show ?thesis
    by (simp add: VALUE_SIGNATURE_LENGTH_eq SIGNATURE_LENGTH_CONCRETE_VALUE_eq
        SIGNATURE_LENGTH_LAMBDA_VALUE_eq)
next
  case False
  with assms have "\<exists>r. property_signature_value v output_value True = Inr r \<and> length r = 1114"
    by (intro property_signature_value_lambda_len) simp_all
  then show ?thesis
    by (simp add: VALUE_SIGNATURE_LENGTH_eq SIGNATURE_LENGTH_CONCRETE_VALUE_eq
        SIGNATURE_LENGTH_LAMBDA_VALUE_eq)
qed

theorem property_signature_value_fixed_length_witness:
  "(\<exists>r. property_signature_value LAMBDA_VALUE (OutputValue [PyInt 1]) True = Inr r
        \<and> length r = VALUE_SIGNATURE_LENGTH)
   \<and> (\<exists>r. property_signature_value (OutputValue [PyList [1, 2], PyList []])
             (OutputValue [PyInt 3, PyBool True]) True = Inr r
        \<and> length r = VALUE_SIGNATURE_LENGTH)"
proof -
  have a: "\<exists>r. property_signature_value LAMBDA_VALUE (OutputValue [PyInt 1]) True = Inr r
        \<and> length r = VALUE_SIGNATURE_LENGTH"
    using property_signature_value_fixed_length [of LAMBDA_VALUE "OutputValue [PyInt 1]"]
    by (auto simp: LAMBDA_VALUE_def OutputValue_def num_examples_def supported_def
        split: list.splits obj.splits)
  have b: "\<exists>r. property_signature_value (OutputValue [PyList [1, 2], PyList []])
             (OutputValue [PyInt 3, PyBool True]) True = Inr r
        \<and> length r = VALUE_SIGNATURE_LENGTH"
    using property_signature_value_fixed_length
      [of "OutputValue [PyList [1, 2], PyList []]" "OutputValue [PyInt 3, PyBool True]"]
    by (simp add: OutputValue_def num_examples_def supported_def)
  from a b show ?thesis by simp
qed

section \<open>Samples of unhandled types\<close>

lemma relevant_unsupported: "\<not> supported x \<Longrightarrow> relevant x = Inl NotImplementedError"
  by (cases x) (simp_all add: supported_def)

lemma basic_signature_unsupported:
  "\<not> supported x \<Longrightarrow> basic_signature x fixed_length = Inl NotImplementedError"
  by (simp add: basic_signature_def basic_signature_variable_def type_property_def
      relevant_unsupported Let_def)

lemma single_example_unsupported_output:
  "\<not> supported output
     \<Longrightarrow> property_signature_single_example inputs output fixed_length = Inl NotImplementedError"
  by (simp add: property_signature_single_example_def basic_signature_unsupported Let_def)

lemma compare_unsupported_left:
  assumes "\<not> supported x"
  shows "compare x y False = Inl NotImplementedError"
proof -
  from assms have "\<And>z. pytype_of x = pytype_of z \<Longrightarrow> compare_same_type x z = Inl NotImplementedError"
    by (cases x) (auto simp: supported_def split: obj.splits)
  then show ?thesis
    using relevant_unsupported [OF assms] by (simp add: compare_def compare_variable_def Let_def)
qed

lemma lambda_sample_raises:
  assumes "\<not> supported output" and "getitem output_value j = Inr out"
  shows "ebind (type_property (value_obj v)) (\<lambda>tp.
         ebind (getitem output_value j) (\<lambda>out.
         ebind (compare output out fixed_length) (\<lambda>c.
         ebind (property_signature_single_example inputs output fixed_length) (\<lambda>s.
         Inr (map Some tp @ c @ s))))) = Inl NotImplementedError"
proof (cases fixed_length)
  case True
  with assms show ?thesis
    by (simp add: type_property_value_obj compare_fixed_unsupported
        single_example_unsupported_output)
next
  case False
  with assms show ?thesis
    by (simp add: type_property_value_obj compare_unsupported_left)
qed

lemma property_signature_lambda_global_raises:
  assumes arity: "num_free_variables v > 0"
    and ex: "num_examples v \<le> num_examples output_value"
    and res: "\<forall>fn\<in>set (values_of v).
        \<forall>args\<in>set (product_repeat inputs_to_try (num_free_variables v)).
          \<forall>r. call fn args = Returns r \<longrightarrow> r = PyNone \<or> \<not> supported r"
    and some: "\<exists>fn\<in>set (values_of v).
        \<exists>args\<in>set (product_repeat inputs_to_try (num_free_variables v)).
          \<exists>r. call fn args = Returns r \<and> r \<noteq> PyNone"
  shows "property_signature_lambda_global g v output_value fixed_length = Inl NotImplementedError"
proof -
  let ?ps = "product_repeat inputs_to_try (num_free_variables v)"
  define S where "S = (\<lambda>fn. concat (map (\<lambda>i. try_call i (fn, [])) ?ps))"
  define io where "io = map S (values_of v)"
  let ?inner = "\<lambda>example_index. \<lambda>(inputs, output).
                 ebind (type_property (value_obj v)) (\<lambda>tp.
                 ebind (getitem output_value example_index) (\<lambda>out.
                 ebind (compare output out fixed_length) (\<lambda>c.
                 ebind (property_signature_single_example inputs output fixed_length) (\<lambda>s.
                 Inr (map Some tp @ c @ s)))))"
  let ?outer = "\<lambda>(example_index, pairs). emap (?inner example_index) pairs"
  have run: "run_lambda v = Inr io"
    unfolding io_def S_def by (rule run_lambda_samples [OF arity])
  have S_iff: "(inputs, r) \<in> set (S fn)
      \<longleftrightarrow> inputs \<in> set ?ps \<and> call fn inputs = Returns r \<and> r \<noteq> PyNone" for inputs r fn
    unfolding S_def by (rule sample_iff)
  from some obtain fn args r where w: "fn \<in> set (values_of v)" "args \<in> set ?ps"
      "call fn args = Returns r" "r \<noteq> PyNone" by blast
  then have "(args, r) \<in> set (S fn)" using S_iff by blast
  then have Sfn: "S fn \<noteq> []" by (metis list.set(1) empty_iff)
  from w(1) obtain k where k: "k < length (values_of v)" "values_of v ! k = fn"
    by (auto simp: in_set_conv_nth)
  then have iok: "k < length io" "io ! k \<noteq> []" using Sfn by (simp_all add: io_def)
  then have "io ! k \<in> set io" by simp
  with iok(2) have notall: "\<not> list_all (\<lambda>pairs. pairs = []) io"
    unfolding list_all_iff by blast
  have step: "(pairs = [] \<longrightarrow> ?outer (j, pairs) = Inr [])
            \<and> (pairs \<noteq> [] \<longrightarrow> ?outer (j, pairs) = Inl NotImplementedError)"
    if p: "(j, pairs) \<in> set (enumerate 0 io)" for j pairs
  proof -
    from p enumerate_members [of j pairs io]
    have j: "j < length (values_of v)" and pairs: "pairs = S (values_of v ! j)"
      by (simp_all add: io_def)
    from j ex have j': "j < length (values_of output_value)" by (simp add: num_examples_def)
    then have gi: "getitem output_value j = Inr (entry_obj (values_of output_value ! j))"
      by (simp add: getitem_def)
    have one: "?inner j q = Inl NotImplementedError" if q: "q \<in> set pairs" for q
    proof -
      obtain inputs outp where io: "q = (inputs, outp)" by (cases q)
      with q pairs have "(inputs, outp) \<in> set (S (values_of v ! j))" by simp
      then have m: "inputs \<in> set ?ps" "call (values_of v ! j) inputs = Returns outp"
          "outp \<noteq> PyNone"
        using S_iff by blast+
      from res j m have "\<not> supported outp" by (metis nth_mem)
      from lambda_sample_raises [OF this gi, of v fixed_length inputs] io show ?thesis by simp
    qed
    have "emap (?inner j) pairs = Inl NotImplementedError" if ne: "pairs \<noteq> []"
    proof (rule emap_fails)
      show "\<forall>x\<in>set pairs. (\<exists>y. ?inner j x = Inr y) \<or> ?inner j x = Inl NotImplementedError"
        using one by blast
      from ne obtain q where "q \<in> set pairs" by (cases pairs) auto
      with one show "\<exists>x\<in>set pairs. ?inner j x = Inl NotImplementedError" by blast
    qed
    then show ?thesis by simp
  qed
  have "emap ?outer (enumerate 0 io) = Inl NotImplementedError"
  proof (rule emap_fails)
    show "\<forall>x\<in>set (enumerate 0 io). (\<exists>y. ?outer x = Inr y) \<or> ?outer x = Inl NotImplementedError"
    proof
      fix x assume x: "x \<in> set (enumerate 0 io)"
      obtain j pairs where "x = (j, pairs)" by (cases x)
      with x step [of j pairs] show "(\<exists>y. ?outer x = Inr y) \<or> ?outer x = Inl NotImplementedError"
        by (cases "pairs = []") auto
    qed
    from iok have m: "(k, io ! k) \<in> set (enumerate 0 io)" by (simp add: in_set_enumerate_eq)
    with step [OF m] iok(2) show "\<exists>x\<in>set (enumerate 0 io). ?outer x = Inl NotImplementedError"
      by blast
  qed
  with run notall show ?thesis
    by (simp add: property_signature_lambda_global_def)
qed

lemma concat_singletons: "concat (map (\<lambda>x. [f x]) xs) = map f xs"
  by (induction xs) simp_all


text \<open>
  Claim C9. The recovery of the lambda sampler covers the call only: for the functional
  value whose callable returns a float on every probe, \<^verbatim>\<open>_run_lambda\<close> records every
  sample, and \<^verbatim>\<open>_property_signature_lambda\<close> and \<^verbatim>\<open>property_signature_value\<close> then raise
  the unhandled-type \<^verbatim>\<open>NotImplementedError\<close>, in fixed-length and in variable-length mode.
\<close>

theorem lambda_unsupported_result_raises:
  "run_lambda \<lparr>values_of = [Fn (\<lambda>args. Returns (PyOther ''float'' None))],
                num_free_variables = 1\<rparr>
     = Inr [map (\<lambda>i. ([i], PyOther ''float'' None)) inputs_to_try]
   \<and> property_signature_lambda
        \<lparr>values_of = [Fn (\<lambda>args. Returns (PyOther ''float'' None))], num_free_variables = 1\<rparr>
        (OutputValue [PyInt 1]) True = Inl NotImplementedError
   \<and> property_signature_lambda
        \<lparr>values_of = [Fn (\<lambda>args. Returns (PyOther ''float'' None))], num_free_variables = 1\<rparr>
        (OutputValue [PyInt 1]) False = Inl NotImplementedError
   \<and> property_signature_value
        \<lparr>values_of = [Fn (\<lambda>args. Returns (PyOther ''float'' None))], num_free_variables = 1\<rparr>
        (OutputValue [PyInt 1]) True = Inl NotImplementedError
   \<and> property_signature_value
        \<lparr>values_of = [Fn (\<lambda>args. Returns (PyOther ''float'' None))], num_free_variables = 1\<rparr>
        (OutputValue [PyInt 1]) False = Inl NotImplementedError"
proof -
  let ?v = "\<lparr>values_of = [Fn (\<lambda>args. Returns (PyOther ''float'' None))],
             num_free_variables = 1\<rparr>"
  let ?o = "OutputValue [PyInt 1]"
  have a: "num_free_variables ?v > 0" by simp
  have b: "num_examples ?v \<le> num_examples ?o" by (simp add: num_examples_def OutputValue_def)
  have c: "\<forall>fn\<in>set (values_of ?v).
        \<forall>args\<in>set (product_repeat inputs_to_try (num_free_variables ?v)).
          \<forall>r. call fn args = Returns r \<longrightarrow> r = PyNone \<or> \<not> supported r"
    by (auto simp: supported_def)
  have p: "[PyInt 0] \<in> set (product_repeat inputs_to_try (num_free_variables ?v))"
    using singleton_probe [OF zero_in_inputs_to_try] by simp
  have d: "\<exists>fn\<in>set (values_of ?v).
        \<exists>args\<in>set (product_repeat inputs_to_try (num_free_variables ?v)).
          \<exists>r. call fn args = Returns r \<and> r \<noteq> PyNone"
    using p by (intro bexI [of _ "Fn (\<lambda>args. Returns (PyOther ''float'' None))"] bexI [of _ "[PyInt 0]"]) simp_all
  have l: "property_signature_lambda ?v ?o fl = Inl NotImplementedError" for fl
    unfolding property_signature_lambda_def
    by (rule property_signature_lambda_global_raises [OF a b c d])
  have ps: "product_repeat inputs_to_try (num_free_variables ?v) = map (\<lambda>x. [x]) inputs_to_try"
    by (simp add: concat_singletons)
  have "concat (map (\<lambda>i. try_call i (Fn (\<lambda>args. Returns (PyOther ''float'' None)), []))
                    (map (\<lambda>x. [x]) inputs_to_try))
          = map (\<lambda>i. ([i], PyOther ''float'' None)) inputs_to_try"
    by (simp add: try_call_def comp_def concat_singletons)
  then have r: "run_lambda ?v = Inr [map (\<lambda>i. ([i], PyOther ''float'' None)) inputs_to_try]"
    unfolding run_lambda_samples [OF a] ps by simp
  from l [of True] l [of False] r show ?thesis
    by (simp add: property_signature_value_def)
qed

end
